theory Spec2Isabelle
  imports Complex_Main
begin

section \<open>Module-level constants of MPC.cpp\<close>

text \<open>
  The source keeps the horizon in a module-level variable \<open>size_t N = 10\<close>, from which the
  block offsets are initialised.  Here every function takes the horizon as its first
  argument \<open>n\<close>; the shipped program is the instance \<open>n = N\<close>.  The source computes
  \<open>N - 1\<close> and \<open>N - 2\<close> on \<open>size_t\<close>, which wrap around below zero; natural-number
  subtraction agrees with them exactly when \<open>2 \<le> n\<close>, and the theorems about the
  evaluator and about \<open>Solve\<close> are stated for such \<open>n\<close>.  Reading a vector out of range is
  undefined in the source; the theorems assume the lengths the program allocates
  (\<open>n_vars\<close> variables, \<open>1 + n_constraints\<close> entries of \<open>fg\<close>, six state entries, four
  coefficients).

  \<open>AD<double>\<close> and \<open>double\<close> are modelled as \<open>real\<close>: the development is about which
  entries are read and written and which expressions are formed, not about rounding.
\<close>

definition N :: nat where
  "N = 10"

definition dt :: real where
  "dt = 0.1"

definition Lf :: real where
  "Lf = 2.67"

definition idxX :: nat where
  "idxX = 0"

definition idxY :: "nat \<Rightarrow> nat" where
  "idxY n = idxX + n"

definition idxPsi :: "nat \<Rightarrow> nat" where
  "idxPsi n = idxY n + n"

definition idxV :: "nat \<Rightarrow> nat" where
  "idxV n = idxPsi n + n"

definition idxCTE :: "nat \<Rightarrow> nat" where
  "idxCTE n = idxV n + n"

definition idxEpsi :: "nat \<Rightarrow> nat" where
  "idxEpsi n = idxCTE n + n"

definition idxDelta :: "nat \<Rightarrow> nat" where
  "idxDelta n = idxEpsi n + n"

definition idxA :: "nat \<Rightarrow> nat" where
  "idxA n = idxDelta n + n - 1"

definition ref_v :: real where
  "ref_v = 100"

type_synonym ADvector = "real list"

type_synonym Dvector = "real list"

section \<open>FG\_eval: cost and constraint evaluation\<close>

text \<open>Body of the first loop (errors and relative velocity): three \<open>fg[0] += ...\<close>.\<close>

definition cost_errors :: "nat \<Rightarrow> ADvector \<Rightarrow> nat \<Rightarrow> ADvector \<Rightarrow> ADvector" where
  "cost_errors n vars t fg =
     (let fg = fg[0 := fg ! 0 + 800 * (vars ! (idxCTE n + t)) ^ 2];
          fg = fg[0 := fg ! 0 + 800 * (vars ! (idxEpsi n + t)) ^ 2];
          fg = fg[0 := fg ! 0 + 1 * (vars ! (idxV n + t) - ref_v) ^ 2]
      in fg)"

text \<open>Body of the second loop (actuator effort).\<close>

definition cost_actuators :: "nat \<Rightarrow> ADvector \<Rightarrow> nat \<Rightarrow> ADvector \<Rightarrow> ADvector" where
  "cost_actuators n vars t fg =
     (let fg = fg[0 := fg ! 0 + 450 * (vars ! (idxDelta n + t) * vars ! (idxV n + t)) ^ 2];
          fg = fg[0 := fg ! 0 + 20 * (vars ! (idxDelta n + t)) ^ 2];
          fg = fg[0 := fg ! 0 + 1 * (vars ! (idxA n + t)) ^ 2]
      in fg)"

text \<open>Body of the third loop (change between consecutive actuations).\<close>

definition cost_changes :: "nat \<Rightarrow> ADvector \<Rightarrow> nat \<Rightarrow> ADvector \<Rightarrow> ADvector" where
  "cost_changes n vars t fg =
     (let fg = fg[0 := fg ! 0 + 1 * (vars ! (idxDelta n + t + 1) - vars ! (idxDelta n + t)) ^ 2];
          fg = fg[0 := fg ! 0 + 1 * (vars ! (idxA n + t + 1) - vars ! (idxA n + t)) ^ 2]
      in fg)"

text \<open>
  Body of the model-equation loop, for one \<open>t\<close> with \<open>1 \<le> t < n\<close>.  The actuator pair is
  first read at \<open>t - 1\<close> and then, when \<open>t > 1\<close>, overwritten by the pair at \<open>t - 2\<close>.
\<close>

definition model_step :: "nat \<Rightarrow> real list \<Rightarrow> ADvector \<Rightarrow> nat \<Rightarrow> ADvector \<Rightarrow> ADvector" where
  "model_step n coeffs vars t fg =
     (let x0 = vars ! (idxX + t - 1);
          y0 = vars ! (idxY n + t - 1);
          psi0 = vars ! (idxPsi n + t - 1);
          v0 = vars ! (idxV n + t - 1);
          cte0 = vars ! (idxCTE n + t - 1);
          epsi0 = vars ! (idxEpsi n + t - 1);
          delta0 = vars ! (idxDelta n + t - 1);
          a0 = vars ! (idxA n + t - 1);
          delta0 = (if t > 1 then vars ! (idxDelta n + t - 2) else delta0);
          a0 = (if t > 1 then vars ! (idxA n + t - 2) else a0);
          f0 = coeffs ! 0 + coeffs ! 1 * x0 + coeffs ! 2 * x0 ^ 2 + coeffs ! 3 * x0 ^ 3;
          psides0 = arctan (coeffs ! 1 + 2 * coeffs ! 2 * x0 + 3 * coeffs ! 3 * x0 ^ 2);
          x1 = vars ! (idxX + t);
          y1 = vars ! (idxY n + t);
          psi1 = vars ! (idxPsi n + t);
          v1 = vars ! (idxV n + t);
          cte1 = vars ! (idxCTE n + t);
          epsi1 = vars ! (idxEpsi n + t);
          fg = fg[1 + idxX + t := x1 - (x0 + v0 * cos psi0 * dt)];
          fg = fg[1 + idxY n + t := y1 - (y0 + v0 * sin psi0 * dt)];
          fg = fg[1 + idxPsi n + t := psi1 - (psi0 - v0 / Lf * delta0 * dt)];
          fg = fg[1 + idxV n + t := v1 - (v0 + a0 * dt)];
          fg = fg[1 + idxCTE n + t := cte1 - ((f0 - y0) + (v0 * sin epsi0 * dt))];
          fg = fg[1 + idxEpsi n + t := epsi1 - ((psi0 - psides0) - v0 / Lf * delta0 * dt)]
      in fg)"

text \<open>
  \<open>FG_eval::operator()\<close>: the vector \<open>fg\<close> is passed by reference and updated in place; the
  model takes it and returns the updated vector.  Entry 0 is the cost, entries
  \<open>1 .. 6n\<close> are the constraint values.
\<close>

definition FG_eval :: "nat \<Rightarrow> real list \<Rightarrow> ADvector \<Rightarrow> ADvector \<Rightarrow> ADvector" where
  "FG_eval n coeffs fg vars =
     (let fg = fg[0 := 0];
          fg = fold (cost_errors n vars) [0..<n] fg;
          fg = fold (cost_actuators n vars) [0..<n - 1] fg;
          fg = fold (cost_changes n vars) [0..<n - 2] fg;
          fg = fg[1 + idxX := vars ! idxX];
          fg = fg[1 + idxY n := vars ! idxY n];
          fg = fg[1 + idxPsi n := vars ! idxPsi n];
          fg = fg[1 + idxV n := vars ! idxV n];
          fg = fg[1 + idxCTE n := vars ! idxCTE n];
          fg = fg[1 + idxEpsi n := vars ! idxEpsi n];
          fg = fold (model_step n coeffs vars) [1..<n] fg
      in fg)"

section \<open>The external solver\<close>

text \<open>
  \<open>CppAD::ipopt::solve\<close> is a library call.  Its result type is embedded with the three
  fields the program reads, and the call itself is a parameter of \<open>Solve\<close>: a function of
  the options, the initial point, the variable bounds, the constraint bounds and the
  evaluator.
\<close>

datatype status_type =
    not_defined | success | maxiter_exceeded | stop_at_tiny_step
  | stop_at_acceptable_point | local_infeasibility | user_requested_stop
  | feasible_point_found | diverging_iterates | restoration_failure
  | error_in_step_computation | invalid_number_detected
  | too_few_degrees_of_freedom | internal_error | unknown

record solve_result =
  sol_status :: status_type
  sol_x :: Dvector
  sol_obj_value :: real

type_synonym ipopt_solve =
  "string \<Rightarrow> Dvector \<Rightarrow> Dvector \<Rightarrow> Dvector \<Rightarrow> Dvector \<Rightarrow> Dvector
     \<Rightarrow> (ADvector \<Rightarrow> ADvector \<Rightarrow> ADvector) \<Rightarrow> solve_result"

section \<open>MPC: construction and Solve\<close>

text \<open>
  The source declares no error type and raises nowhere; the three error kinds are the
  ones the specification names, so that "raises \<open>ConfigurationError\<close>" can be stated.

  \<open>MPC::MPC() {}\<close>: the constructor has an empty body.  The horizon in force is passed in
  so that construction under any horizon can be stated; the result is a sum so that a
  raised error would be \<open>Inl\<close>.
\<close>

datatype error = ConfigurationError | ConvergenceFailure | NumericAnomaly

definition MPC_new :: "nat \<Rightarrow> error + unit" where
  "MPC_new n = Inr ()"

definition n_vars :: "nat \<Rightarrow> nat" where
  "n_vars n = n * 6 + (n - 1) * 2"

definition n_constraints :: "nat \<Rightarrow> nat" where
  "n_constraints n = n * 6"

text \<open>The initial point: zero everywhere, then the six state entries.\<close>

definition initial_vars :: "nat \<Rightarrow> real list \<Rightarrow> Dvector" where
  "initial_vars n state =
     (let x = state ! 0; y = state ! 1; psi = state ! 2;
          v = state ! 3; cte = state ! 4; epsi = state ! 5;
          vars = fold (\<lambda>i vars. vars[i := 0]) [0..<n_vars n] (replicate (n_vars n) 0);
          vars = vars[idxX := x];
          vars = vars[idxY n := y];
          vars = vars[idxPsi n := psi];
          vars = vars[idxV n := v];
          vars = vars[idxCTE n := cte];
          vars = vars[idxEpsi n := epsi]
      in vars)"

text \<open>
  The bound vectors are allocated with \<open>n_vars\<close> entries and filled by three loops.  The
  allocation does not initialise; the model starts from zeros, and every entry is
  overwritten (lemma \<open>vars_lowerbound_nth\<close> below).
\<close>

definition vars_lowerbound :: "nat \<Rightarrow> Dvector" where
  "vars_lowerbound n =
     (let lb = replicate (n_vars n) 0;
          lb = fold (\<lambda>i lb. lb[i := - (10 ^ 23)]) [0..<idxDelta n] lb;
          lb = fold (\<lambda>i lb. lb[i := - 0.436332]) [idxDelta n..<idxA n] lb;
          lb = fold (\<lambda>i lb. lb[i := - 1.0]) [idxA n..<n_vars n] lb
      in lb)"

definition vars_upperbound :: "nat \<Rightarrow> Dvector" where
  "vars_upperbound n =
     (let ub = replicate (n_vars n) 0;
          ub = fold (\<lambda>i ub. ub[i := 10 ^ 23]) [0..<idxDelta n] ub;
          ub = fold (\<lambda>i ub. ub[i := 0.436332]) [idxDelta n..<idxA n] ub;
          ub = fold (\<lambda>i ub. ub[i := 1.0]) [idxA n..<n_vars n] ub
      in ub)"

text \<open>
  Lower and upper limits of the constraints: zero, then the state at the six block starts.
  The source writes the same values into both vectors.
\<close>

definition constraints_lowerbound :: "nat \<Rightarrow> real list \<Rightarrow> Dvector" where
  "constraints_lowerbound n state =
     (let x = state ! 0; y = state ! 1; psi = state ! 2;
          v = state ! 3; cte = state ! 4; epsi = state ! 5;
          gl = fold (\<lambda>i gl. gl[i := 0]) [0..<n_constraints n] (replicate (n_constraints n) 0);
          gl = gl[idxX := x];
          gl = gl[idxY n := y];
          gl = gl[idxPsi n := psi];
          gl = gl[idxV n := v];
          gl = gl[idxCTE n := cte];
          gl = gl[idxEpsi n := epsi]
      in gl)"

definition constraints_upperbound :: "nat \<Rightarrow> real list \<Rightarrow> Dvector" where
  "constraints_upperbound n state =
     (let x = state ! 0; y = state ! 1; psi = state ! 2;
          v = state ! 3; cte = state ! 4; epsi = state ! 5;
          gu = fold (\<lambda>i gu. gu[i := 0]) [0..<n_constraints n] (replicate (n_constraints n) 0);
          gu = gu[idxX := x];
          gu = gu[idxY n := y];
          gu = gu[idxPsi n := psi];
          gu = gu[idxV n := v];
          gu = gu[idxCTE n := cte];
          gu = gu[idxEpsi n := epsi]
      in gu)"

definition options :: string where
  "options =
     ''Integer print_level  0'' @ [CHR 0x0A] @
     ''Sparse  true        forward'' @ [CHR 0x0A] @
     ''Sparse  true        reverse'' @ [CHR 0x0A] @
     ''Numeric max_cpu_time          0.5'' @ [CHR 0x0A]"

text \<open>
  The tail of \<open>Solve\<close>: the first actuator pair, then the positions for
  \<open>t = 0 .. n - 2\<close> read at \<open>t + 1\<close>, pushed in that order.
\<close>

definition return_val :: "nat \<Rightarrow> solve_result \<Rightarrow> real list" where
  "return_val n solution =
     (let rv = [];
          rv = rv @ [sol_x solution ! idxDelta n];
          rv = rv @ [sol_x solution ! idxA n];
          rv = fold (\<lambda>t rv. (rv @ [sol_x solution ! (idxX + t + 1)])
                                  @ [sol_x solution ! (idxY n + t + 1)]) [0..<n - 1] rv
      in rv)"

text \<open>
  \<open>MPC::Solve\<close>.  The flag \<open>ok\<close> is computed from the status and not read afterwards; the
  cost is printed to standard output, which the model leaves out.
\<close>

definition Solve :: "nat \<Rightarrow> ipopt_solve \<Rightarrow> real list \<Rightarrow> real list \<Rightarrow> real list" where
  "Solve n solve state coeffs =
     (let ok = True;
          vars = initial_vars n state;
          solution = solve options vars (vars_lowerbound n) (vars_upperbound n)
                       (constraints_lowerbound n state) (constraints_upperbound n state)
                       (FG_eval n coeffs);
          ok = (ok \<and> sol_status solution = success);
          cost = sol_obj_value solution
      in return_val n solution)"

section \<open>State blocks and the values written by the model loop\<close>

text \<open>
  The six state blocks of the variable vector, in the order of the source's comment
  \<open>fg = (cost, X0.., Y0.., Psi0.., V0.., CTE0.., Epsi0...)\<close>, with the offset of each.
\<close>

datatype block = X | Y | Psi | V | CTE | Epsi

fun idx :: "nat \<Rightarrow> block \<Rightarrow> nat" where
  "idx n X = idxX"
| "idx n Y = idxY n"
| "idx n Psi = idxPsi n"
| "idx n V = idxV n"
| "idx n CTE = idxCTE n"
| "idx n Epsi = idxEpsi n"

text \<open>
  The value that \<open>model_step\<close> stores at \<open>1 + idx n b + t\<close>: the right-hand side of the
  corresponding assignment of the source, with the local variables replaced by the reads
  that define them.
\<close>

fun written :: "nat \<Rightarrow> real list \<Rightarrow> ADvector \<Rightarrow> nat \<Rightarrow> block \<Rightarrow> real" where
  "written n coeffs vars t X =
     vars ! (idxX + t)
       - (vars ! (idxX + t - 1) + vars ! (idxV n + t - 1) * cos (vars ! (idxPsi n + t - 1)) * dt)"
| "written n coeffs vars t Y =
     vars ! (idxY n + t)
       - (vars ! (idxY n + t - 1) + vars ! (idxV n + t - 1) * sin (vars ! (idxPsi n + t - 1)) * dt)"
| "written n coeffs vars t Psi =
     vars ! (idxPsi n + t)
       - (vars ! (idxPsi n + t - 1)
           - vars ! (idxV n + t - 1) / Lf
               * (if t > 1 then vars ! (idxDelta n + t - 2) else vars ! (idxDelta n + t - 1)) * dt)"
| "written n coeffs vars t V =
     vars ! (idxV n + t)
       - (vars ! (idxV n + t - 1)
           + (if t > 1 then vars ! (idxA n + t - 2) else vars ! (idxA n + t - 1)) * dt)"
| "written n coeffs vars t CTE =
     vars ! (idxCTE n + t)
       - (((coeffs ! 0 + coeffs ! 1 * vars ! (idxX + t - 1)
             + coeffs ! 2 * vars ! (idxX + t - 1) ^ 2 + coeffs ! 3 * vars ! (idxX + t - 1) ^ 3)
            - vars ! (idxY n + t - 1))
          + (vars ! (idxV n + t - 1) * sin (vars ! (idxEpsi n + t - 1)) * dt))"
| "written n coeffs vars t Epsi =
     vars ! (idxEpsi n + t)
       - ((vars ! (idxPsi n + t - 1)
            - arctan (coeffs ! 1 + 2 * coeffs ! 2 * vars ! (idxX + t - 1)
                        + 3 * coeffs ! 3 * vars ! (idxX + t - 1) ^ 2))
          - vars ! (idxV n + t - 1) / Lf
              * (if t > 1 then vars ! (idxDelta n + t - 2) else vars ! (idxDelta n + t - 1)) * dt)"

section \<open>The model equations in the specification's words\<close>

text \<open>
  The definitions named \<open>spec_\<dots>\<close> follow the specification, not the source: the reference
  model (Horner evaluation of the cubic, and the arctangent of its first derivative,
  which lemma \<open>deriv_spec_evaluate\<close> below shows to be the polynomial written here), the
  latency rule for the actuator index, and the predicted next value of each state block.
\<close>

definition spec_evaluate :: "real list \<Rightarrow> real \<Rightarrow> real" where
  "spec_evaluate coeffs x =
     coeffs ! 0 + x * (coeffs ! 1 + x * (coeffs ! 2 + x * coeffs ! 3))"

definition spec_desiredHeading :: "real list \<Rightarrow> real \<Rightarrow> real" where
  "spec_desiredHeading coeffs x =
     arctan (coeffs ! 1 + 2 * coeffs ! 2 * x + 3 * coeffs ! 3 * x ^ 2)"

definition spec_actuator_index :: "nat \<Rightarrow> nat" where
  "spec_actuator_index t = (if t > 1 then t - 2 else t - 1)"

fun spec_predicted :: "nat \<Rightarrow> real list \<Rightarrow> real list \<Rightarrow> nat \<Rightarrow> block \<Rightarrow> real" where
  "spec_predicted n coeffs vars t X =
     vars ! (idx n X + (t - 1)) + vars ! (idx n V + (t - 1)) * cos (vars ! (idx n Psi + (t - 1))) * dt"
| "spec_predicted n coeffs vars t Y =
     vars ! (idx n Y + (t - 1)) + vars ! (idx n V + (t - 1)) * sin (vars ! (idx n Psi + (t - 1))) * dt"
| "spec_predicted n coeffs vars t Psi =
     vars ! (idx n Psi + (t - 1))
       - vars ! (idx n V + (t - 1)) / Lf * vars ! (idxDelta n + spec_actuator_index t) * dt"
| "spec_predicted n coeffs vars t V =
     vars ! (idx n V + (t - 1)) + vars ! (idxA n + spec_actuator_index t) * dt"
| "spec_predicted n coeffs vars t CTE =
     (spec_evaluate coeffs (vars ! (idx n X + (t - 1))) - vars ! (idx n Y + (t - 1)))
       + vars ! (idx n V + (t - 1)) * sin (vars ! (idx n Epsi + (t - 1))) * dt"
| "spec_predicted n coeffs vars t Epsi =
     (vars ! (idx n Psi + (t - 1)) - spec_desiredHeading coeffs (vars ! (idx n X + (t - 1))))
       - vars ! (idx n V + (t - 1)) / Lf * vars ! (idxDelta n + spec_actuator_index t) * dt"

section \<open>Positions in the state vector and bound satisfaction\<close>

text \<open>
  \<open>state_pos b\<close> is the position of block \<open>b\<close> in the argument \<open>state\<close> of \<open>Solve\<close>
  (\<open>state = (X, Y, Psi, V, CTE, Epsi)\<close>).  \<open>within_bounds lo hi v\<close> says that \<open>v\<close> lies
  entrywise between the two bound vectors, which is what the solver is asked to achieve
  for the variables and for the constraint values.
\<close>

fun state_pos :: "block \<Rightarrow> nat" where
  "state_pos X = 0"
| "state_pos Y = 1"
| "state_pos Psi = 2"
| "state_pos V = 3"
| "state_pos CTE = 4"
| "state_pos Epsi = 5"

definition within_bounds :: "Dvector \<Rightarrow> Dvector \<Rightarrow> Dvector \<Rightarrow> bool" where
  "within_bounds lo hi v = (list_all2 (\<le>) lo v \<and> list_all2 (\<le>) v hi)"

section \<open>Lemmas about the loops and the vectors they build\<close>

lemmas idx_defs = idxX_def idxY_def idxPsi_def idxV_def idxCTE_def idxEpsi_def idxDelta_def idxA_def

lemma length_fold_keep:
  assumes "\<And>t s. length (f t s) = length s"
  shows "length (fold f ts s) = length s"
  using assms by (induction ts arbitrary: s) simp_all

lemma fold_accumulate:
  fixes g :: "nat \<Rightarrow> real"
  assumes len: "\<And>t s. length (f t s) = length s"
    and acc: "\<And>t s. 0 < length s \<Longrightarrow> f t s ! 0 = s ! 0 + g t"
    and pos: "0 < length s"
  shows "fold f [0..<m] s ! 0 = s ! 0 + (\<Sum>t<m. g t)"
proof (induction m)
  case 0
  show ?case by simp
next
  case (Suc m)
  have "0 < length (fold f [0..<m] s)"
    using pos by (simp add: length_fold_keep [of f, OF len])
  then show ?case
    using Suc by (simp add: acc)
qed

lemma length_cost_errors: "length (cost_errors n vars t fg) = length fg"
  by (simp add: cost_errors_def Let_def)

lemma length_cost_actuators: "length (cost_actuators n vars t fg) = length fg"
  by (simp add: cost_actuators_def Let_def)

lemma length_cost_changes: "length (cost_changes n vars t fg) = length fg"
  by (simp add: cost_changes_def Let_def)

lemma length_model_step: "length (model_step n coeffs vars t fg) = length fg"
  by (simp add: model_step_def Let_def)

lemma cost_errors_0:
  "0 < length fg \<Longrightarrow> cost_errors n vars t fg ! 0 =
     fg ! 0 + (800 * (vars ! (idxCTE n + t)) ^ 2 + 800 * (vars ! (idxEpsi n + t)) ^ 2
               + 1 * (vars ! (idxV n + t) - ref_v) ^ 2)"
  by (simp add: cost_errors_def Let_def)

lemma cost_actuators_0:
  "0 < length fg \<Longrightarrow> cost_actuators n vars t fg ! 0 =
     fg ! 0 + (450 * (vars ! (idxDelta n + t) * vars ! (idxV n + t)) ^ 2
               + 20 * (vars ! (idxDelta n + t)) ^ 2 + 1 * (vars ! (idxA n + t)) ^ 2)"
  by (simp add: cost_actuators_def Let_def)

lemma cost_changes_0:
  "0 < length fg \<Longrightarrow> cost_changes n vars t fg ! 0 =
     fg ! 0 + (1 * (vars ! (idxDelta n + t + 1) - vars ! (idxDelta n + t)) ^ 2
               + 1 * (vars ! (idxA n + t + 1) - vars ! (idxA n + t)) ^ 2)"
  by (simp add: cost_changes_def Let_def)

lemma model_step_0: "model_step n coeffs vars t fg ! 0 = fg ! 0"
  by (simp add: model_step_def Let_def)

lemma fold_model_step_0: "fold (model_step n coeffs vars) ts fg ! 0 = fg ! 0"
  by (induction ts arbitrary: fg) (simp_all add: model_step_0)

lemma model_step_written:
  assumes "1 \<le> t" "t < n"
  shows "model_step n coeffs vars t fg =
     fg[1 + idx n X + t := written n coeffs vars t X,
        1 + idx n Y + t := written n coeffs vars t Y,
        1 + idx n Psi + t := written n coeffs vars t Psi,
        1 + idx n V + t := written n coeffs vars t V,
        1 + idx n CTE + t := written n coeffs vars t CTE,
        1 + idx n Epsi + t := written n coeffs vars t Epsi]"
  by (simp add: model_step_def Let_def)

lemma model_step_same:
  assumes "1 \<le> t" "t < n" "length fg = 1 + n_constraints n"
  shows "model_step n coeffs vars t fg ! (1 + idx n b + t) = written n coeffs vars t b"
  unfolding model_step_written [OF assms(1,2)]
  using assms by (cases b) (simp_all add: idx_defs n_constraints_def nth_list_update)

lemma model_step_other:
  assumes "1 \<le> t" "t < n" "s < n" "s \<noteq> t"
  shows "model_step n coeffs vars t fg ! (1 + idx n b + s) = fg ! (1 + idx n b + s)"
  unfolding model_step_written [OF assms(1,2)]
  using assms by (cases b) (simp_all add: idx_defs nth_list_update)

lemma fold_model_step_untouched:
  assumes "s < n" "m \<le> n" "s = 0 \<or> m \<le> s"
  shows "fold (model_step n coeffs vars) [1..<m] fg ! (1 + idx n b + s) = fg ! (1 + idx n b + s)"
  using assms(2,3)
proof (induction m)
  case 0
  show ?case by simp
next
  case (Suc m)
  show ?case
  proof (cases "1 \<le> m")
    case True
    then have "fold (model_step n coeffs vars) [1..<Suc m] fg ! (1 + idx n b + s)
        = model_step n coeffs vars m (fold (model_step n coeffs vars) [1..<m] fg) ! (1 + idx n b + s)"
      by simp
    also have "\<dots> = fold (model_step n coeffs vars) [1..<m] fg ! (1 + idx n b + s)"
      using True Suc.prems assms(1) by (intro model_step_other) auto
    also have "\<dots> = fg ! (1 + idx n b + s)"
      using Suc by auto
    finally show ?thesis .
  next
    case False
    then show ?thesis by simp
  qed
qed

lemma fold_model_step_nth:
  assumes len: "length fg = 1 + n_constraints n" and "1 \<le> t" "t < m" "m \<le> n"
  shows "fold (model_step n coeffs vars) [1..<m] fg ! (1 + idx n b + t) = written n coeffs vars t b"
  using assms(3,4)
proof (induction m)
  case 0
  then show ?case by simp
next
  case (Suc m)
  let ?F = "fold (model_step n coeffs vars) [1..<m] fg"
  have lenF: "length ?F = 1 + n_constraints n"
    using len by (simp add: length_fold_keep [of "model_step n coeffs vars", OF length_model_step])
  have m1: "1 \<le> m" using assms(2) Suc.prems by simp
  then have step: "fold (model_step n coeffs vars) [1..<Suc m] fg = model_step n coeffs vars m ?F"
    by simp
  show ?case
  proof (cases "t = m")
    case True
    show ?thesis
      unfolding step True
      using m1 Suc.prems lenF by (intro model_step_same) auto
  next
    case False
    then have "t < m" using Suc.prems by simp
    then have "?F ! (1 + idx n b + t) = written n coeffs vars t b"
      using Suc by simp
    moreover have "model_step n coeffs vars m ?F ! (1 + idx n b + t) = ?F ! (1 + idx n b + t)"
      using m1 Suc.prems False by (intro model_step_other) auto
    ultimately show ?thesis
      unfolding step by simp
  qed
qed

lemma length_FG_eval: "length (FG_eval n coeffs fg vars) = length fg"
  by (simp add: FG_eval_def Let_def
      length_fold_keep [of "model_step n coeffs vars", OF length_model_step]
      length_fold_keep [of "cost_errors n vars", OF length_cost_errors]
      length_fold_keep [of "cost_actuators n vars", OF length_cost_actuators]
      length_fold_keep [of "cost_changes n vars", OF length_cost_changes])

lemma FG_eval_model:
  assumes "length fg = 1 + n_constraints n" "1 \<le> t" "t < n"
  shows "FG_eval n coeffs fg vars ! (1 + idx n b + t) = written n coeffs vars t b"
  unfolding FG_eval_def Let_def
  using assms
  by (intro fold_model_step_nth)
    (simp_all add: length_fold_keep [of "cost_errors n vars", OF length_cost_errors]
      length_fold_keep [of "cost_actuators n vars", OF length_cost_actuators]
      length_fold_keep [of "cost_changes n vars", OF length_cost_changes])

lemma FG_eval_initial:
  assumes "length fg = 1 + n_constraints n" "1 \<le> n"
  shows "FG_eval n coeffs fg vars ! (1 + idx n b) = vars ! idx n b"
proof -
  have "FG_eval n coeffs fg vars ! (1 + idx n b + 0) =
      (fold (cost_changes n vars) [0..<n - 2]
        (fold (cost_actuators n vars) [0..<n - 1]
          (fold (cost_errors n vars) [0..<n] (fg[0 := 0]))))
       [1 + idxX := vars ! idxX, 1 + idxY n := vars ! idxY n,
        1 + idxPsi n := vars ! idxPsi n, 1 + idxV n := vars ! idxV n,
        1 + idxCTE n := vars ! idxCTE n, 1 + idxEpsi n := vars ! idxEpsi n] ! (1 + idx n b + 0)"
    unfolding FG_eval_def Let_def
    using assms by (intro fold_model_step_untouched) auto
  also have "\<dots> = vars ! idx n b"
    using assms
    by (cases b)
      (simp_all add: idx_defs n_constraints_def nth_list_update
        length_fold_keep [of "cost_errors n vars", OF length_cost_errors]
        length_fold_keep [of "cost_actuators n vars", OF length_cost_actuators]
        length_fold_keep [of "cost_changes n vars", OF length_cost_changes])
  finally show ?thesis by simp
qed

lemma FG_eval_cost:
  assumes "0 < length fg"
  shows "FG_eval n coeffs fg vars ! 0 =
    (\<Sum>t<n. 800 * (vars ! (idxCTE n + t)) ^ 2 + 800 * (vars ! (idxEpsi n + t)) ^ 2
               + 1 * (vars ! (idxV n + t) - ref_v) ^ 2)
  + (\<Sum>t<n - 1. 450 * (vars ! (idxDelta n + t) * vars ! (idxV n + t)) ^ 2
               + 20 * (vars ! (idxDelta n + t)) ^ 2 + 1 * (vars ! (idxA n + t)) ^ 2)
  + (\<Sum>t<n - 2. 1 * (vars ! (idxDelta n + t + 1) - vars ! (idxDelta n + t)) ^ 2
               + 1 * (vars ! (idxA n + t + 1) - vars ! (idxA n + t)) ^ 2)"
proof -
  let ?f0 = "fg[0 := 0]"
  let ?f1 = "fold (cost_errors n vars) [0..<n] ?f0"
  let ?f2 = "fold (cost_actuators n vars) [0..<n - 1] ?f1"
  let ?f3 = "fold (cost_changes n vars) [0..<n - 2] ?f2"
  have l0: "0 < length ?f0" using assms by simp
  have l1: "0 < length ?f1"
    using l0 by (simp add: length_fold_keep [of "cost_errors n vars", OF length_cost_errors])
  have l2: "0 < length ?f2"
    using l1 by (simp add: length_fold_keep [of "cost_actuators n vars", OF length_cost_actuators])
  have l3: "0 < length ?f3"
    using l2 by (simp add: length_fold_keep [of "cost_changes n vars", OF length_cost_changes])
  have e0: "?f0 ! 0 = 0" using assms by simp
  have e1: "?f1 ! 0 = ?f0 ! 0 + (\<Sum>t<n. 800 * (vars ! (idxCTE n + t)) ^ 2
        + 800 * (vars ! (idxEpsi n + t)) ^ 2 + 1 * (vars ! (idxV n + t) - ref_v) ^ 2)"
    by (rule fold_accumulate [OF length_cost_errors cost_errors_0 l0])
  have e2: "?f2 ! 0 = ?f1 ! 0 + (\<Sum>t<n - 1. 450 * (vars ! (idxDelta n + t) * vars ! (idxV n + t)) ^ 2
               + 20 * (vars ! (idxDelta n + t)) ^ 2 + 1 * (vars ! (idxA n + t)) ^ 2)"
    by (rule fold_accumulate [OF length_cost_actuators cost_actuators_0 l1])
  have e3: "?f3 ! 0 = ?f2 ! 0 + (\<Sum>t<n - 2. 1 * (vars ! (idxDelta n + t + 1) - vars ! (idxDelta n + t)) ^ 2
               + 1 * (vars ! (idxA n + t + 1) - vars ! (idxA n + t)) ^ 2)"
    by (rule fold_accumulate [OF length_cost_changes cost_changes_0 l2])
  have "FG_eval n coeffs fg vars ! 0 = ?f3 ! 0"
    unfolding FG_eval_def Let_def
    using l3 by (simp add: fold_model_step_0 idx_defs)
  then show ?thesis
    using e0 e1 e2 e3 by simp
qed

lemma spec_evaluate_expanded:
  "spec_evaluate coeffs x = coeffs ! 0 + coeffs ! 1 * x + coeffs ! 2 * x ^ 2 + coeffs ! 3 * x ^ 3"
  by (simp add: spec_evaluate_def power2_eq_square power3_eq_cube algebra_simps)

lemma deriv_spec_evaluate:
  "(spec_evaluate coeffs has_real_derivative
      (coeffs ! 1 + 2 * coeffs ! 2 * x + 3 * coeffs ! 3 * x ^ 2)) (at x)"
proof -
  have "((\<lambda>x. coeffs ! 0 + coeffs ! 1 * x + coeffs ! 2 * x ^ 2 + coeffs ! 3 * x ^ 3)
          has_real_derivative (coeffs ! 1 + 2 * coeffs ! 2 * x + 3 * coeffs ! 3 * x ^ 2)) (at x)"
    by (auto intro!: derivative_eq_intros)
  moreover have "spec_evaluate coeffs
      = (\<lambda>x. coeffs ! 0 + coeffs ! 1 * x + coeffs ! 2 * x ^ 2 + coeffs ! 3 * x ^ 3)"
    by (rule ext) (rule spec_evaluate_expanded)
  ultimately show ?thesis
    by simp
qed

lemma time_cases:
  assumes "1 \<le> t"
  obtains (first) "t = Suc 0" | (later) r where "t = Suc (Suc r)"
proof (cases t)
  case 0
  then show thesis using assms by simp
next
  case (Suc s)
  then show thesis
    by (cases s) (auto intro: first later)
qed

lemma written_predicted:
  assumes "1 \<le> t"
  shows "written n coeffs vars t b = vars ! (idx n b + t) - spec_predicted n coeffs vars t b"
  using assms
proof (cases t rule: time_cases)
  case first
  show ?thesis
    unfolding first
    by (cases b)
      (simp_all add: spec_actuator_index_def spec_evaluate_expanded spec_desiredHeading_def)
next
  case (later r)
  show ?thesis
    unfolding later
    by (cases b)
      (simp_all add: spec_actuator_index_def spec_evaluate_expanded spec_desiredHeading_def)
qed

lemma length_fold_fill: "length (fold (\<lambda>i v. v[i := c]) ts v) = length v"
  by (induction ts arbitrary: v) simp_all

lemma fold_fill_nth:
  "fold (\<lambda>i v. v[i := c]) [a..<b] v ! j = (if a \<le> j \<and> j < b \<and> j < length v then c else v ! j)"
proof (induction b)
  case 0
  show ?case by simp
next
  case (Suc b)
  let ?F = "fold (\<lambda>i v. v[i := c]) [a..<b] v"
  show ?case
  proof (cases "a \<le> b")
    case True
    then have step: "fold (\<lambda>i v. v[i := c]) [a..<Suc b] v = ?F[b := c]"
      by simp
    show ?thesis
    proof (cases "j = b")
      case eq: True
      show ?thesis
      proof (cases "b < length v")
        case True
        then show ?thesis
          unfolding step eq using \<open>a \<le> b\<close> by (simp add: length_fold_fill)
      next
        case False
        then have "?F[b := c] = ?F"
          by (intro list_update_beyond) (simp add: length_fold_fill)
        then show ?thesis
          unfolding step eq using False Suc [of ] eq by simp
      qed
    next
      case False
      then have "?F[b := c] ! j = ?F ! j"
        by simp
      then show ?thesis
        unfolding step using Suc False by auto
    qed
  next
    case False
    then show ?thesis by auto
  qed
qed

lemma length_constraints_lowerbound: "length (constraints_lowerbound n state) = n_constraints n"
  by (simp add: constraints_lowerbound_def Let_def length_fold_fill)

lemma length_constraints_upperbound: "length (constraints_upperbound n state) = n_constraints n"
  by (simp add: constraints_upperbound_def Let_def length_fold_fill)

lemma constraints_lowerbound_start:
  assumes "1 \<le> n"
  shows "constraints_lowerbound n state ! idx n b = state ! state_pos b"
  using assms
  by (cases b)
    (simp_all add: constraints_lowerbound_def Let_def idx_defs n_constraints_def
      nth_list_update length_fold_fill)

lemma constraints_upperbound_start:
  assumes "1 \<le> n"
  shows "constraints_upperbound n state ! idx n b = state ! state_pos b"
  using assms
  by (cases b)
    (simp_all add: constraints_upperbound_def Let_def idx_defs n_constraints_def
      nth_list_update length_fold_fill)

lemma constraints_lowerbound_later:
  assumes "1 \<le> t" "t < n"
  shows "constraints_lowerbound n state ! (idx n b + t) = 0"
  using assms
  by (cases b)
    (simp_all add: constraints_lowerbound_def Let_def idx_defs n_constraints_def
      nth_list_update length_fold_fill fold_fill_nth)

lemma constraints_upperbound_later:
  assumes "1 \<le> t" "t < n"
  shows "constraints_upperbound n state ! (idx n b + t) = 0"
  using assms
  by (cases b)
    (simp_all add: constraints_upperbound_def Let_def idx_defs n_constraints_def
      nth_list_update length_fold_fill fold_fill_nth)

lemma idx_in_range: "t < n \<Longrightarrow> idx n b + t < n_constraints n"
  by (cases b) (simp_all add: idx_defs n_constraints_def)

lemma within_bounds_nth:
  assumes "within_bounds lo hi v" "i < length v"
  shows "lo ! i \<le> v ! i \<and> v ! i \<le> hi ! i"
  using assms by (auto simp add: within_bounds_def list_all2_conv_all_nth)

lemma fold_push_pairs:
  "fold (\<lambda>t rv. rv @ [f t, g t]) ts rv = rv @ concat (map (\<lambda>t. [f t, g t]) ts)"
  by (induction ts arbitrary: rv) simp_all

lemma return_val_eq:
  "return_val n solution =
     [sol_x solution ! idxDelta n, sol_x solution ! idxA n]
       @ concat (map (\<lambda>t. [sol_x solution ! (idxX + t + 1), sol_x solution ! (idxY n + t + 1)])
                   [0..<n - 1])"
  by (simp add: return_val_def Let_def fold_push_pairs)

lemma map_upt_shift:
  assumes "1 \<le> n"
  shows "map (\<lambda>t. h (Suc t)) [0..<n - 1] = map h [1..<n]"
proof -
  have "[1..<n] = map Suc [0..<n - 1]"
    using assms by (simp add: map_Suc_upt)
  then show ?thesis
    by (simp only: map_map comp_def)
qed

lemma length_vars_lowerbound: "length (vars_lowerbound n) = n_vars n"
  by (simp add: vars_lowerbound_def Let_def length_fold_fill)

lemma length_vars_upperbound: "length (vars_upperbound n) = n_vars n"
  by (simp add: vars_upperbound_def Let_def length_fold_fill)

lemma vars_lowerbound_nth:
  assumes "1 \<le> n" "i < n_vars n"
  shows "vars_lowerbound n ! i =
     (if i < idxDelta n then - (10 ^ 23) else if i < idxA n then - 0.436332 else - 1.0)"
  using assms
  by (auto simp add: vars_lowerbound_def Let_def fold_fill_nth length_fold_fill idx_defs n_vars_def)

lemma vars_upperbound_nth:
  assumes "1 \<le> n" "i < n_vars n"
  shows "vars_upperbound n ! i =
     (if i < idxDelta n then 10 ^ 23 else if i < idxA n then 0.436332 else 1.0)"
  using assms
  by (auto simp add: vars_upperbound_def Let_def fold_fill_nth length_fold_fill idx_defs n_vars_def)

lemma constraint_index_cases:
  assumes "1 \<le> i" "i \<le> n_constraints n"
  obtains b t where "t < n" "i = 1 + idx n b + t"
proof -
  consider "i - 1 < n" | "n \<le> i - 1" "i - 1 < 2 * n" | "2 * n \<le> i - 1" "i - 1 < 3 * n"
    | "3 * n \<le> i - 1" "i - 1 < 4 * n" | "4 * n \<le> i - 1" "i - 1 < 5 * n"
    | "5 * n \<le> i - 1" "i - 1 < 6 * n"
    using assms by (simp add: n_constraints_def) linarith
  then show thesis
  proof cases
    case 1
    then show thesis
      using assms(1) by (intro that [of "i - 1" X]) (simp_all add: idx_defs)
  next
    case 2
    then show thesis
      using assms(1) by (intro that [of "i - 1 - n" Y]) (simp_all add: idx_defs)
  next
    case 3
    then show thesis
      using assms(1) by (intro that [of "i - 1 - 2 * n" Psi]) (simp_all add: idx_defs)
  next
    case 4
    then show thesis
      using assms(1) by (intro that [of "i - 1 - 3 * n" V]) (simp_all add: idx_defs)
  next
    case 5
    then show thesis
      using assms(1) by (intro that [of "i - 1 - 4 * n" CTE]) (simp_all add: idx_defs)
  next
    case 6
    then show thesis
      using assms(1) by (intro that [of "i - 1 - 5 * n" Epsi]) (simp_all add: idx_defs)
  qed
qed

lemma written_agree:
  assumes "3 \<le> n" "1 \<le> t" "t < n"
    and same: "\<And>j. j \<noteq> idxDelta n + (n - 2) \<Longrightarrow> j \<noteq> idxA n + (n - 2) \<Longrightarrow> vars' ! j = vars ! j"
  shows "written n coeffs vars' t b = written n coeffs vars t b"
proof -
  have st: "vars' ! (idx n c + s) = vars ! (idx n c + s)" if "s < n" for c s
    using that assms(1) by (intro same; cases c) (simp_all add: idx_defs)
  have dl: "vars' ! (idxDelta n + s) = vars ! (idxDelta n + s)" if "s + 2 < n" for s
    using that by (intro same) (simp_all add: idx_defs)
  have ac: "vars' ! (idxA n + s) = vars ! (idxA n + s)" if "s + 2 < n" for s
    using that by (intro same) (simp_all add: idx_defs)
  from assms(2) show ?thesis
  proof (cases t rule: time_cases)
    case first
    have s: "vars' ! (idx n c + 0) = vars ! (idx n c + 0)"
      "vars' ! (idx n c + Suc 0) = vars ! (idx n c + Suc 0)" for c
      using assms(1) by (intro st; simp)+
    have a: "vars' ! (idxDelta n + 0) = vars ! (idxDelta n + 0)"
      "vars' ! (idxA n + 0) = vars ! (idxA n + 0)"
      using assms(1) by (intro dl ac; simp)+
    show ?thesis
      unfolding first
      using s [of X] s [of Y] s [of Psi] s [of V] s [of CTE] s [of Epsi] a
      by (cases b) simp_all
  next
    case (later r)
    have s: "vars' ! (idx n c + Suc r) = vars ! (idx n c + Suc r)"
      "vars' ! (idx n c + Suc (Suc r)) = vars ! (idx n c + Suc (Suc r))" for c
      using assms(3) unfolding later by (intro st; simp)+
    have a: "vars' ! (idxDelta n + r) = vars ! (idxDelta n + r)"
      "vars' ! (idxA n + r) = vars ! (idxA n + r)"
      using assms(3) unfolding later by (intro dl ac; simp)+
    show ?thesis
      unfolding later
      using s [of X] s [of Y] s [of Psi] s [of V] s [of CTE] s [of Epsi] a
      by (cases b) simp_all
  qed
qed

lemma Solve_return_val:
  "Solve n solve state coeffs =
     return_val n (solve options (initial_vars n state) (vars_lowerbound n) (vars_upperbound n)
        (constraints_lowerbound n state) (constraints_upperbound n state) (FG_eval n coeffs))"
  by (simp add: Solve_def Let_def)

lemma length_initial_vars: "length (initial_vars n state) = n_vars n"
  by (simp add: initial_vars_def Let_def length_fold_fill)

lemma initial_vars_actuators:
  assumes "1 \<le> n" "idxDelta n \<le> i" "i < n_vars n"
  shows "initial_vars n state ! i = 0"
  using assms
  by (simp add: initial_vars_def Let_def idx_defs fold_fill_nth length_fold_fill)

lemma initial_vars_later:
  assumes "1 \<le> t" "t < n"
  shows "initial_vars n state ! (idx n b + t) = 0"
  using assms
  by (cases b)
    (simp_all add: initial_vars_def Let_def idx_defs n_vars_def fold_fill_nth length_fold_fill)

lemma initial_vars_start:
  assumes "1 \<le> n"
  shows "initial_vars n state ! idx n b = state ! state_pos b"
  using assms
  by (cases b)
    (simp_all add: initial_vars_def Let_def idx_defs n_vars_def nth_list_update length_fold_fill)

text \<open>
  A vehicle standing still at \<open>x = 2\<close> on the path \<open>y = 0\<close>: the evaluator's output, and the
  constraint bounds \<open>Solve\<close> builds for that state.
\<close>

lemma FG_eval_standstill:
  "FG_eval 3 [0, 0, 0, 0] (replicate 19 0)
     [2, 2, 2,  0, 0, 0,  0, 0, 0,  0, 0, 0,  0, 0, 0,  0, 0, 0,  0, 0,  0, 0]
   = [30000, 2, 0, 0,  0, 0, 0,  0, 0, 0,  0, 0, 0,  0, 0, 0,  0, 0, 0]"
  by (simp add: FG_eval_def Let_def model_step_def cost_errors_def cost_actuators_def
      cost_changes_def idx_defs ref_v_def dt_def eval_nat_numeral)

lemma bounds_standstill:
  "constraints_lowerbound 3 [2, 0, 0, 0, 0, 0] = [2, 0, 0,  0, 0, 0,  0, 0, 0,  0, 0, 0,  0, 0, 0,  0, 0, 0]"
  "constraints_upperbound 3 [2, 0, 0, 0, 0, 0] = [2, 0, 0,  0, 0, 0,  0, 0, 0,  0, 0, 0,  0, 0, 0,  0, 0, 0]"
  by (simp_all add: constraints_lowerbound_def constraints_upperbound_def Let_def idx_defs
      n_constraints_def eval_nat_numeral)

lemma within_bounds_zero:
  assumes "1 \<le> n"
  shows "within_bounds (vars_lowerbound n) (vars_upperbound n) (replicate (n_vars n) 0)"
  using assms
  by (simp add: within_bounds_def list_all2_conv_all_nth length_vars_lowerbound
      length_vars_upperbound vars_lowerbound_nth vars_upperbound_nth)

lemma within_bounds_update:
  assumes "within_bounds lo hi v" "i < length v" "lo ! i \<le> c" "c \<le> hi ! i"
  shows "within_bounds lo hi (v[i := c])"
  using assms
  by (auto simp add: within_bounds_def list_all2_conv_all_nth nth_list_update)

lemma concat_zero_pairs: "concat (map (\<lambda>t. [0, 0]) ts) = replicate (2 * length ts) (0::real)"
  by (induction ts) simp_all

lemma return_val_initial_vars:
  assumes "2 \<le> n"
  shows "return_val n \<lparr>sol_status = st, sol_x = initial_vars n state, sol_obj_value = c\<rparr>
           = replicate (2 * n) 0"
proof -
  let ?xi = "initial_vars n state"
  obtain m where m: "n = Suc m"
    using assms by (cases n) simp_all
  have a: "?xi ! idxDelta n = 0" "?xi ! idxA n = 0"
    using assms by (simp_all add: initial_vars_actuators idx_defs n_vars_def)
  have p: "?xi ! Suc (idxX + t) = 0" "?xi ! Suc (idxY n + t) = 0" if "t < n - 1" for t
    using that initial_vars_later [where t = "t + 1" and n = n and b = X and state = state]
      initial_vars_later [where t = "t + 1" and n = n and b = Y and state = state]
    by simp_all
  have "map (\<lambda>t. [?xi ! (idxX + t + 1), ?xi ! (idxY n + t + 1)]) [0..<n - 1]
      = map (\<lambda>t. [0, 0]) [0..<n - 1]"
    by (rule map_cong) (simp_all add: p)
  then have "return_val n \<lparr>sol_status = st, sol_x = ?xi, sol_obj_value = c\<rparr>
      = [0, 0] @ replicate (2 * (n - 1)) 0"
    by (simp only: return_val_eq a concat_zero_pairs solve_result.simps length_upt diff_zero)
  then show ?thesis
    by (simp add: m)
qed

section \<open>The claims\<close>

text \<open>
  The concrete instances use a horizon of 3: \<open>x\<close> at 0..2, \<open>y\<close> at 3..5, \<open>psi\<close> at 6..8,
  \<open>v\<close> at 9..11, \<open>cte\<close> at 12..14, \<open>epsi\<close> at 15..17, \<open>delta\<close> at 18..19 and \<open>a\<close> at
  20..21; the evaluator's output then has 19 entries.
\<close>

subsection \<open>C1\<close>

text \<open>
  Claim C1, as amended.  For every state block \<open>b\<close>, the constraint entry for \<open>t = 0\<close> is
  the variable \<open>variable(b,0)\<close> itself; both constraint bounds at that index carry the
  state value; hence wherever the constraint values lie within their bounds, the
  variable (and with it the constraint entry) equals the state value of the block.
\<close>

theorem initial_constraint_pins_state:
  assumes "2 \<le> n" "length fg = 1 + n_constraints n"
    and "length vars = n_vars n" "length state = 6"
  shows "FG_eval n coeffs fg vars ! (1 + idx n b) = vars ! idx n b
       \<and> constraints_lowerbound n state ! idx n b = state ! state_pos b
       \<and> constraints_upperbound n state ! idx n b = state ! state_pos b
       \<and> (within_bounds (constraints_lowerbound n state) (constraints_upperbound n state)
             (tl (FG_eval n coeffs fg vars))
            \<longrightarrow> vars ! idx n b = state ! state_pos b
              \<and> FG_eval n coeffs fg vars ! (1 + idx n b) = state ! state_pos b)"
proof -
  let ?R = "FG_eval n coeffs fg vars"
  have n1: "1 \<le> n"
    using assms(1) by simp
  have e: "?R ! (1 + idx n b) = vars ! idx n b"
    using assms(2) n1 by (rule FG_eval_initial)
  have lenR: "length (tl ?R) = n_constraints n"
    using assms(2) by (simp add: length_FG_eval)
  have i: "idx n b < n_constraints n"
    using idx_in_range [of 0 n b] n1 by simp
  have t: "tl ?R ! idx n b = ?R ! (1 + idx n b)"
    using i lenR by (simp add: nth_tl)
  have "vars ! idx n b = state ! state_pos b"
    if "within_bounds (constraints_lowerbound n state) (constraints_upperbound n state) (tl ?R)"
    using within_bounds_nth [OF that, of "idx n b"] i lenR e t
    by (simp add: constraints_lowerbound_start [OF n1] constraints_upperbound_start [OF n1])
  then show ?thesis
    using e constraints_lowerbound_start [OF n1] constraints_upperbound_start [OF n1]
    by simp
qed

text \<open>
  An instance: the standstill point, which satisfies every constraint bound.
\<close>

theorem initial_constraint_pins_state_witness:
  "(2::nat) \<le> 3 \<and> length (replicate 19 (0::real)) = 1 + n_constraints 3
   \<and> length [2, 2, 2,  0, 0, 0,  0, 0, 0,  0, 0, 0,  0, 0, 0,  0, 0, 0,  0, 0,  0, 0 :: real] = n_vars 3
   \<and> length [2, 0, 0, 0, 0, 0 :: real] = 6
   \<and> within_bounds (constraints_lowerbound 3 [2, 0, 0, 0, 0, 0])
        (constraints_upperbound 3 [2, 0, 0, 0, 0, 0])
        (tl (FG_eval 3 [0, 0, 0, 0] (replicate 19 0)
           [2, 2, 2,  0, 0, 0,  0, 0, 0,  0, 0, 0,  0, 0, 0,  0, 0, 0,  0, 0,  0, 0]))
   \<and> FG_eval 3 [0, 0, 0, 0] (replicate 19 0)
        [2, 2, 2,  0, 0, 0,  0, 0, 0,  0, 0, 0,  0, 0, 0,  0, 0, 0,  0, 0,  0, 0] ! (1 + idx 3 X) = 2
   \<and> constraints_lowerbound 3 [2, 0, 0, 0, 0, 0] ! idx 3 X = 2
   \<and> constraints_upperbound 3 [2, 0, 0, 0, 0, 0] ! idx 3 X = 2
   \<and> [2, 2, 2,  0, 0, 0,  0, 0, 0,  0, 0, 0,  0, 0, 0,  0, 0, 0,  0, 0,  0, 0] ! idx 3 X
        = [2, 0, 0, 0, 0, 0] ! state_pos X"
  using initial_constraint_pins_state [where n = 3 and fg = "replicate 19 0"
      and coeffs = "[0, 0, 0, 0]" and b = X and state = "[2, 0, 0, 0, 0, 0]"
      and vars = "[2, 2, 2,  0, 0, 0,  0, 0, 0,  0, 0, 0,  0, 0, 0,  0, 0, 0,  0, 0,  0, 0]"]
  by (simp add: FG_eval_standstill bounds_standstill within_bounds_def idx_defs n_constraints_def
      n_vars_def)

text \<open>
  Claim C1 as stated fails: in the standstill instance every constraint value lies within
  its bounds, and the entry for \<open>x\<close> at \<open>t = 0\<close> is \<open>2\<close>, the state value: neither the
  difference \<open>variable - state\<close> (which is \<open>0\<close>) nor zero.
\<close>

theorem initial_constraint_not_a_difference:
  "FG_eval 3 [0, 0, 0, 0] (replicate 19 0)
     [2, 2, 2,  0, 0, 0,  0, 0, 0,  0, 0, 0,  0, 0, 0,  0, 0, 0,  0, 0,  0, 0] ! (1 + idx 3 X)
    \<noteq> [2, 2, 2,  0, 0, 0,  0, 0, 0,  0, 0, 0,  0, 0, 0,  0, 0, 0,  0, 0,  0, 0] ! idx 3 X
        - [2, 0, 0, 0, 0, 0] ! state_pos X
   \<and> within_bounds (constraints_lowerbound 3 [2, 0, 0, 0, 0, 0])
        (constraints_upperbound 3 [2, 0, 0, 0, 0, 0])
        (tl (FG_eval 3 [0, 0, 0, 0] (replicate 19 0)
           [2, 2, 2,  0, 0, 0,  0, 0, 0,  0, 0, 0,  0, 0, 0,  0, 0, 0,  0, 0,  0, 0]))
   \<and> FG_eval 3 [0, 0, 0, 0] (replicate 19 0)
     [2, 2, 2,  0, 0, 0,  0, 0, 0,  0, 0, 0,  0, 0, 0,  0, 0, 0,  0, 0,  0, 0] ! (1 + idx 3 X) \<noteq> 0"
  by (simp add: FG_eval_standstill bounds_standstill within_bounds_def idx_defs)

subsection \<open>C2\<close>

text \<open>
  Claim C2 fails on the code.  With the horizon of the program and a state of extreme
  speed, a solver that gives up with status \<open>maxiter_exceeded\<close> at its starting point
  makes \<open>Solve\<close> return the same twenty numbers as a solver that reports \<open>success\<close> there:
  the actuator pair \<open>(0, 0)\<close> and nine predicted positions, with nothing that tells the
  two apart.
\<close>

theorem Solve_returns_command_on_failure:
  "Solve N (\<lambda>opts xi xl xu gl gu fg_eval.
              \<lparr>sol_status = maxiter_exceeded, sol_x = xi, sol_obj_value = 0\<rparr>)
     [0, 0, 0, 10 ^ 30, 0, 0] [0, 0, 0, 0] = replicate 20 0
   \<and> Solve N (\<lambda>opts xi xl xu gl gu fg_eval.
              \<lparr>sol_status = success, sol_x = xi, sol_obj_value = 0\<rparr>)
     [0, 0, 0, 10 ^ 30, 0, 0] [0, 0, 0, 0] = replicate 20 0"
  by (simp add: Solve_return_val N_def return_val_initial_vars)

subsection \<open>C3\<close>

text \<open>
  Claim C3, as amended.  For every timestep \<open>t\<close> with \<open>1 \<le> t < n\<close> and every state block
  \<open>b\<close>, the constraint entry at \<open>1 + idx n b + t\<close> is the optimization variable at \<open>t\<close>
  minus the model-predicted value: the difference is stored with the variable first.
\<close>

theorem residual_is_actual_minus_predicted:
  assumes "length fg = 1 + n_constraints n" "1 \<le> t" "t < n"
    and "length vars = n_vars n" "length coeffs = 4"
  shows "FG_eval n coeffs fg vars ! (1 + idx n b + t)
           = vars ! (idx n b + t) - spec_predicted n coeffs vars t b"
  using FG_eval_model [OF assms(1-3), of coeffs vars b] written_predicted [OF assms(2), of n coeffs vars b]
  by simp

text \<open>
  An instance at \<open>t = 2\<close>: the variable \<open>x\<close> is 5, the predicted value 2, the entry 3.
\<close>

theorem residual_is_actual_minus_predicted_witness:
  "length (replicate 19 (0::real)) = 1 + n_constraints 3 \<and> (1::nat) \<le> 2 \<and> (2::nat) < 3
   \<and> length [0, 1, 5,  0, 0, 0,  0, 0, 0,  10, 10, 10,  1, 0, 0,  0, 0, 0,  0, 0.1,  1, 0 :: real] = n_vars 3
   \<and> length [1, 0, 0, 0 :: real] = 4
   \<and> FG_eval 3 [1, 0, 0, 0] (replicate 19 0)
        [0, 1, 5,  0, 0, 0,  0, 0, 0,  10, 10, 10,  1, 0, 0,  0, 0, 0,  0, 0.1,  1, 0] ! (1 + idx 3 X + 2)
      = 3"
  using residual_is_actual_minus_predicted [where n = 3 and fg = "replicate 19 0" and t = 2
      and coeffs = "[1, 0, 0, 0]" and b = X
      and vars = "[0, 1, 5,  0, 0, 0,  0, 0, 0,  10, 10, 10,  1, 0, 0,  0, 0, 0,  0, 0.1,  1, 0]"]
  by (simp add: n_constraints_def n_vars_def idx_defs dt_def eval_nat_numeral)

text \<open>
  Claim C3 as stated fails: at \<open>t = 2\<close> the variable \<open>x\<close> is 5 and the predicted value is
  \<open>1 + 10 * cos 0 * 0.1 = 2\<close>; the stored entry is \<open>3\<close>, not predicted minus actual.
\<close>

theorem residual_sign_counterexample:
  "FG_eval 3 [1, 0, 0, 0] (replicate 19 0)
        [0, 1, 5,  0, 0, 0,  0, 0, 0,  10, 10, 10,  1, 0, 0,  0, 0, 0,  0, 0.1,  1, 0] ! (1 + idx 3 X + 2)
    \<noteq> spec_predicted 3 [1, 0, 0, 0]
        [0, 1, 5,  0, 0, 0,  0, 0, 0,  10, 10, 10,  1, 0, 0,  0, 0, 0,  0, 0.1,  1, 0] 2 X
      - [0, 1, 5,  0, 0, 0,  0, 0, 0,  10, 10, 10,  1, 0, 0,  0, 0, 0,  0, 0.1,  1, 0] ! (idx 3 X + 2)"
  using FG_eval_model [of "replicate 19 0" 3 2 "[1, 0, 0, 0]"
      "[0, 1, 5,  0, 0, 0,  0, 0, 0,  10, 10, 10,  1, 0, 0,  0, 0, 0,  0, 0.1,  1, 0]" X]
  by (simp add: n_constraints_def idx_defs dt_def eval_nat_numeral)

subsection \<open>C4\<close>

text \<open>
  Claim C4.  In the three model equations that read an actuator (heading, speed, heading
  error), the pair \<open>(delta, a)\<close> is read at actuator index \<open>t - 2\<close> when \<open>t > 1\<close> and at
  index \<open>0\<close> when \<open>t = 1\<close>; so at \<open>t = 2\<close> the index is \<open>0\<close>, not \<open>1\<close>.
\<close>

theorem latency_actuator_index:
  assumes "length fg = 1 + n_constraints n" "1 \<le> t" "t < n"
    and "length vars = n_vars n" "length coeffs = 4"
  shows "let R = FG_eval n coeffs fg vars;
             k = (if 1 < t then t - 2 else 0);
             delta = vars ! (idxDelta n + k);
             a = vars ! (idxA n + k)
         in R ! (1 + idxPsi n + t) = vars ! (idxPsi n + t)
               - (vars ! (idxPsi n + (t - 1)) - vars ! (idxV n + (t - 1)) / Lf * delta * dt)
          \<and> R ! (1 + idxV n + t) = vars ! (idxV n + t) - (vars ! (idxV n + (t - 1)) + a * dt)
          \<and> R ! (1 + idxEpsi n + t) = vars ! (idxEpsi n + t)
               - ((vars ! (idxPsi n + (t - 1))
                    - arctan (coeffs ! 1 + 2 * coeffs ! 2 * vars ! (idxX + (t - 1))
                               + 3 * coeffs ! 3 * vars ! (idxX + (t - 1)) ^ 2))
                  - vars ! (idxV n + (t - 1)) / Lf * delta * dt)"
proof -
  have w: "FG_eval n coeffs fg vars ! (1 + idx n b + t) = written n coeffs vars t b" for b
    using assms(1-3) by (rule FG_eval_model)
  from assms(2) show ?thesis
  proof (cases t rule: time_cases)
    case first
    show ?thesis
      using w [of Psi] w [of V] w [of Epsi] unfolding first by (simp add: Let_def)
  next
    case (later r)
    show ?thesis
      using w [of Psi] w [of V] w [of Epsi] unfolding later by (simp add: Let_def)
  qed
qed

text \<open>
  An instance at \<open>t = 2\<close>, where the actuator pair is \<open>(0.267, 1)\<close> at index 0 and
  \<open>(0.1, 0)\<close> at index 1: the heading entry is \<open>0 - (0 - 10 / 2.67 * 0.267 * 0.1)\<close> and the
  speed entry \<open>10 - (10 + 1 * 0.1)\<close>, both from index 0.
\<close>

theorem latency_actuator_index_witness:
  "length (replicate 19 (0::real)) = 1 + n_constraints 3 \<and> (1::nat) \<le> 2 \<and> (2::nat) < 3
   \<and> length [0, 1, 5,  0, 0, 0,  0, 0, 0,  10, 10, 10,  1, 0, 0,  0, 0, 0,  0.267, 0.1,  1, 0 :: real] = n_vars 3
   \<and> length [1, 0, 0, 0 :: real] = 4
   \<and> FG_eval 3 [1, 0, 0, 0] (replicate 19 0)
        [0, 1, 5,  0, 0, 0,  0, 0, 0,  10, 10, 10,  1, 0, 0,  0, 0, 0,  0.267, 0.1,  1, 0] ! (1 + idxPsi 3 + 2)
      = 0.1
   \<and> FG_eval 3 [1, 0, 0, 0] (replicate 19 0)
        [0, 1, 5,  0, 0, 0,  0, 0, 0,  10, 10, 10,  1, 0, 0,  0, 0, 0,  0.267, 0.1,  1, 0] ! (1 + idxV 3 + 2)
      = - 0.1
   \<and> FG_eval 3 [1, 0, 0, 0] (replicate 19 0)
        [0, 1, 5,  0, 0, 0,  0, 0, 0,  10, 10, 10,  1, 0, 0,  0, 0, 0,  0.267, 0.1,  1, 0] ! (1 + idxEpsi 3 + 2)
      = 0.1"
  using latency_actuator_index [where n = 3 and fg = "replicate 19 0" and t = 2
      and coeffs = "[1, 0, 0, 0]"
      and vars = "[0, 1, 5,  0, 0, 0,  0, 0, 0,  10, 10, 10,  1, 0, 0,  0, 0, 0,  0.267, 0.1,  1, 0]"]
  by (simp add: n_constraints_def n_vars_def idx_defs dt_def Lf_def Let_def eval_nat_numeral)

subsection \<open>C5\<close>

text \<open>
  Claim C5.  For every \<open>t\<close> with \<open>1 \<le> t < n\<close>, the value subtracted from the variable at
  \<open>t\<close> in each dynamics constraint (the variable minus the stored entry) is the one the
  kinematic bicycle model of the specification gives from the state at \<open>t - 1\<close>: with
  \<open>f\<close> the cubic evaluated at \<open>x(t-1)\<close> and \<open>psides\<close> the arctangent of the derivative of
  that cubic at \<open>x(t-1)\<close>.
\<close>

theorem dynamics_follow_bicycle_model:
  assumes "length fg = 1 + n_constraints n" "1 \<le> t" "t < n"
    and "length vars = n_vars n" "length coeffs = 4"
  shows "let R = FG_eval n coeffs fg vars;
             x0 = vars ! (idxX + (t - 1));
             y0 = vars ! (idxY n + (t - 1));
             psi0 = vars ! (idxPsi n + (t - 1));
             v0 = vars ! (idxV n + (t - 1));
             epsi0 = vars ! (idxEpsi n + (t - 1));
             k = (if 1 < t then t - 2 else 0);
             delta = vars ! (idxDelta n + k);
             a = vars ! (idxA n + k);
             f = spec_evaluate coeffs x0;
             f' = coeffs ! 1 + 2 * coeffs ! 2 * x0 + 3 * coeffs ! 3 * x0 ^ 2;
             psides = arctan f'
         in (spec_evaluate coeffs has_real_derivative f') (at x0)
          \<and> vars ! (idxX + t) - R ! (1 + idxX + t) = x0 + v0 * cos psi0 * dt
          \<and> vars ! (idxY n + t) - R ! (1 + idxY n + t) = y0 + v0 * sin psi0 * dt
          \<and> vars ! (idxPsi n + t) - R ! (1 + idxPsi n + t) = psi0 - v0 / Lf * delta * dt
          \<and> vars ! (idxV n + t) - R ! (1 + idxV n + t) = v0 + a * dt
          \<and> vars ! (idxCTE n + t) - R ! (1 + idxCTE n + t) = (f - y0) + v0 * sin epsi0 * dt
          \<and> vars ! (idxEpsi n + t) - R ! (1 + idxEpsi n + t) = (psi0 - psides) - v0 / Lf * delta * dt"
proof -
  have w: "FG_eval n coeffs fg vars ! (1 + idx n b + t) = written n coeffs vars t b" for b
    using assms(1-3) by (rule FG_eval_model)
  have d: "(spec_evaluate coeffs has_real_derivative
      (coeffs ! 1 + 2 * coeffs ! 2 * vars ! (idxX + (t - 1))
        + 3 * coeffs ! 3 * vars ! (idxX + (t - 1)) ^ 2)) (at (vars ! (idxX + (t - 1))))"
    by (rule deriv_spec_evaluate)
  from assms(2) have eqs: "vars ! (idxX + t) - FG_eval n coeffs fg vars ! (1 + idxX + t)
        = vars ! (idxX + (t - 1)) + vars ! (idxV n + (t - 1)) * cos (vars ! (idxPsi n + (t - 1))) * dt
      \<and> vars ! (idxY n + t) - FG_eval n coeffs fg vars ! (1 + idxY n + t)
        = vars ! (idxY n + (t - 1)) + vars ! (idxV n + (t - 1)) * sin (vars ! (idxPsi n + (t - 1))) * dt
      \<and> vars ! (idxPsi n + t) - FG_eval n coeffs fg vars ! (1 + idxPsi n + t)
        = vars ! (idxPsi n + (t - 1)) - vars ! (idxV n + (t - 1)) / Lf
            * vars ! (idxDelta n + (if 1 < t then t - 2 else 0)) * dt
      \<and> vars ! (idxV n + t) - FG_eval n coeffs fg vars ! (1 + idxV n + t)
        = vars ! (idxV n + (t - 1)) + vars ! (idxA n + (if 1 < t then t - 2 else 0)) * dt
      \<and> vars ! (idxCTE n + t) - FG_eval n coeffs fg vars ! (1 + idxCTE n + t)
        = (spec_evaluate coeffs (vars ! (idxX + (t - 1))) - vars ! (idxY n + (t - 1)))
            + vars ! (idxV n + (t - 1)) * sin (vars ! (idxEpsi n + (t - 1))) * dt
      \<and> vars ! (idxEpsi n + t) - FG_eval n coeffs fg vars ! (1 + idxEpsi n + t)
        = (vars ! (idxPsi n + (t - 1))
            - arctan (coeffs ! 1 + 2 * coeffs ! 2 * vars ! (idxX + (t - 1))
                        + 3 * coeffs ! 3 * vars ! (idxX + (t - 1)) ^ 2))
          - vars ! (idxV n + (t - 1)) / Lf * vars ! (idxDelta n + (if 1 < t then t - 2 else 0)) * dt"
  proof (cases t rule: time_cases)
    case first
    show ?thesis
      using w [of X] w [of Y] w [of Psi] w [of V] w [of CTE] w [of Epsi]
      unfolding first by (simp add: spec_evaluate_expanded)
  next
    case (later r)
    show ?thesis
      using w [of X] w [of Y] w [of Psi] w [of V] w [of CTE] w [of Epsi]
      unfolding later by (simp add: spec_evaluate_expanded)
  qed
  show ?thesis
    unfolding Let_def using d eqs by blast
qed

text \<open>
  An instance at \<open>t = 1\<close>, with the path \<open>y = 1\<close>.
\<close>

theorem dynamics_follow_bicycle_model_witness:
  "length (replicate 19 (0::real)) = 1 + n_constraints 3 \<and> (1::nat) \<le> 1 \<and> (1::nat) < 3
   \<and> length [0, 1, 5,  0, 0, 0,  0, 0, 0,  10, 10, 10,  1, 0, 0,  0, 0, 0,  0, 0.1,  1, 0 :: real] = n_vars 3
   \<and> length [1, 0, 0, 0 :: real] = 4
   \<and> (let vars = [0, 1, 5,  0, 0, 0,  0, 0, 0,  10, 10, 10,  1, 0, 0,  0, 0, 0,  0, 0.1,  1, 0];
           R = FG_eval 3 [1, 0, 0, 0] (replicate 19 0) vars
       in vars ! (idxX + 1) - R ! (1 + idxX + 1) = 1
        \<and> vars ! (idxY 3 + 1) - R ! (1 + idxY 3 + 1) = 0
        \<and> vars ! (idxPsi 3 + 1) - R ! (1 + idxPsi 3 + 1) = 0
        \<and> vars ! (idxV 3 + 1) - R ! (1 + idxV 3 + 1) = 10.1
        \<and> vars ! (idxCTE 3 + 1) - R ! (1 + idxCTE 3 + 1) = 1
        \<and> vars ! (idxEpsi 3 + 1) - R ! (1 + idxEpsi 3 + 1) = 0)"
  using dynamics_follow_bicycle_model [where n = 3 and fg = "replicate 19 0" and t = 1
      and coeffs = "[1, 0, 0, 0]"
      and vars = "[0, 1, 5,  0, 0, 0,  0, 0, 0,  10, 10, 10,  1, 0, 0,  0, 0, 0,  0, 0.1,  1, 0]"]
  by (simp add: n_constraints_def n_vars_def idx_defs dt_def Let_def spec_evaluate_def
      eval_nat_numeral)

subsection \<open>C6\<close>

text \<open>
  Claim C6.  The cost \<open>fg[0]\<close> is the sum of the tracking terms over \<open>t \<in> [0, n)\<close>, the
  effort terms over \<open>t \<in> [0, n-1)\<close> and the smoothness terms over \<open>t \<in> [0, n-2)\<close>, with
  the weights 800, 800, 1, then 450, 20, 1, then 1, 1 of the source.
\<close>

theorem cost_is_weighted_sum:
  assumes "2 \<le> n" "length fg = 1 + n_constraints n" "length vars = n_vars n"
  shows "FG_eval n coeffs fg vars ! 0 =
      (\<Sum>t\<in>{0..<n}. 800 * (vars ! (idxCTE n + t)) ^ 2 + 800 * (vars ! (idxEpsi n + t)) ^ 2
                       + 1 * (vars ! (idxV n + t) - ref_v) ^ 2)
    + (\<Sum>t\<in>{0..<n - 1}. 450 * (vars ! (idxDelta n + t) * vars ! (idxV n + t)) ^ 2
                       + 20 * (vars ! (idxDelta n + t)) ^ 2 + 1 * (vars ! (idxA n + t)) ^ 2)
    + (\<Sum>t\<in>{0..<n - 2}. 1 * (vars ! (idxDelta n + (t + 1)) - vars ! (idxDelta n + t)) ^ 2
                       + 1 * (vars ! (idxA n + (t + 1)) - vars ! (idxA n + t)) ^ 2)"
proof -
  have "0 < length fg" using assms(2) by simp
  then show ?thesis
    by (simp add: FG_eval_cost atLeast0LessThan add.assoc)
qed

text \<open>
  An instance: tracking \<open>25100\<close>, effort \<open>451.2\<close>, smoothness \<open>1.01\<close>.
\<close>

theorem cost_is_weighted_sum_witness:
  "(2::nat) \<le> 3 \<and> length (replicate 19 (0::real)) = 1 + n_constraints 3
   \<and> length [0, 1, 5,  0, 0, 0,  0, 0, 0,  10, 10, 10,  1, 0, 0,  0, 0, 0,  0, 0.1,  1, 0 :: real] = n_vars 3
   \<and> FG_eval 3 [1, 0, 0, 0] (replicate 19 0)
        [0, 1, 5,  0, 0, 0,  0, 0, 0,  10, 10, 10,  1, 0, 0,  0, 0, 0,  0, 0.1,  1, 0] ! 0
      = 25552.21"
  using cost_is_weighted_sum [where n = 3 and fg = "replicate 19 0"
      and coeffs = "[1, 0, 0, 0]"
      and vars = "[0, 1, 5,  0, 0, 0,  0, 0, 0,  10, 10, 10,  1, 0, 0,  0, 0, 0,  0, 0.1,  1, 0]"]
  by (simp add: n_constraints_def n_vars_def idx_defs ref_v_def eval_nat_numeral)

subsection \<open>C7\<close>

text \<open>
  Claim C7.  The variable bounds are constant per block: the sentinel pair
  \<open>-1.0e23, 1.0e23\<close> on the six state blocks (the program's way of leaving them
  unconstrained), \<open>-0.436332, 0.436332\<close> on every steering variable and \<open>-1, 1\<close> on every
  acceleration variable.  Consequently, when the solver reports success and its point
  lies within the bounds it was given, the returned steering command lies in
  \<open>[-0.436332, 0.436332]\<close> and the returned acceleration command in \<open>[-1, 1]\<close>.
\<close>

theorem bounds_per_block_and_command_range:
  assumes "2 \<le> n"
    and "solution = solve options (initial_vars n state) (vars_lowerbound n) (vars_upperbound n)
            (constraints_lowerbound n state) (constraints_upperbound n state) (FG_eval n coeffs)"
    and "sol_status solution = success
           \<longrightarrow> within_bounds (vars_lowerbound n) (vars_upperbound n) (sol_x solution)"
    and "length state = 6" "length coeffs = 4"
  shows "length (vars_lowerbound n) = n_vars n \<and> length (vars_upperbound n) = n_vars n
       \<and> (\<forall>i < idxDelta n. vars_lowerbound n ! i = - (10 ^ 23) \<and> vars_upperbound n ! i = 10 ^ 23)
       \<and> (\<forall>i. idxDelta n \<le> i \<and> i < idxA n
              \<longrightarrow> vars_lowerbound n ! i = - 0.436332 \<and> vars_upperbound n ! i = 0.436332)
       \<and> (\<forall>i. idxA n \<le> i \<and> i < n_vars n
              \<longrightarrow> vars_lowerbound n ! i = - 1 \<and> vars_upperbound n ! i = 1)
       \<and> (sol_status solution = success
              \<longrightarrow> - 0.436332 \<le> Solve n solve state coeffs ! 0
                \<and> Solve n solve state coeffs ! 0 \<le> 0.436332
                \<and> - 1 \<le> Solve n solve state coeffs ! 1
                \<and> Solve n solve state coeffs ! 1 \<le> 1)"
proof -
  have n1: "1 \<le> n" using assms(1) by simp
  have blocks: "idxDelta n < idxA n" "idxA n < n_vars n"
    using assms(1) by (simp_all add: idx_defs n_vars_def)
  have s: "Solve n solve state coeffs = return_val n solution"
    by (simp add: Solve_def Let_def assms(2))
  have r: "return_val n solution ! 0 = sol_x solution ! idxDelta n"
    "return_val n solution ! 1 = sol_x solution ! idxA n"
    by (simp_all add: return_val_eq)
  have cmd: "- 0.436332 \<le> sol_x solution ! idxDelta n \<and> sol_x solution ! idxDelta n \<le> 0.436332
      \<and> - 1 \<le> sol_x solution ! idxA n \<and> sol_x solution ! idxA n \<le> 1"
    if ok: "sol_status solution = success"
  proof -
    have wb: "within_bounds (vars_lowerbound n) (vars_upperbound n) (sol_x solution)"
      using assms(3) ok by simp
    then have len: "length (sol_x solution) = n_vars n"
      by (auto simp add: within_bounds_def length_vars_lowerbound dest: list_all2_lengthD)
    have "vars_lowerbound n ! idxDelta n \<le> sol_x solution ! idxDelta n
        \<and> sol_x solution ! idxDelta n \<le> vars_upperbound n ! idxDelta n"
      using blocks len by (intro within_bounds_nth [OF wb]) simp
    moreover have "vars_lowerbound n ! idxA n \<le> sol_x solution ! idxA n
        \<and> sol_x solution ! idxA n \<le> vars_upperbound n ! idxA n"
      using blocks len by (intro within_bounds_nth [OF wb]) simp
    ultimately show ?thesis
      using blocks by (simp add: vars_lowerbound_nth [OF n1] vars_upperbound_nth [OF n1])
  qed
  have b1: "\<forall>i < idxDelta n. vars_lowerbound n ! i = - (10 ^ 23) \<and> vars_upperbound n ! i = 10 ^ 23"
    using blocks by (simp add: vars_lowerbound_nth [OF n1] vars_upperbound_nth [OF n1])
  have b2: "\<forall>i. idxDelta n \<le> i \<and> i < idxA n
              \<longrightarrow> vars_lowerbound n ! i = - 0.436332 \<and> vars_upperbound n ! i = 0.436332"
    using blocks by (simp add: vars_lowerbound_nth [OF n1] vars_upperbound_nth [OF n1])
  have b3: "\<forall>i. idxA n \<le> i \<and> i < n_vars n
              \<longrightarrow> vars_lowerbound n ! i = - 1 \<and> vars_upperbound n ! i = 1"
    using blocks by (simp add: vars_lowerbound_nth [OF n1] vars_upperbound_nth [OF n1])
  show ?thesis
    using b1 b2 b3 cmd s r by (simp add: length_vars_lowerbound length_vars_upperbound)
qed

text \<open>
  An instance: a solver that reports success with steering 0.3 and acceleration -1.
\<close>

theorem bounds_per_block_and_command_range_witness:
  "(2::nat) \<le> 3 \<and> length [0, 0, 0, 10, 1, 0 :: real] = 6 \<and> length [0, 0, 0, 0 :: real] = 4
   \<and> sol_status \<lparr>sol_status = success,
         sol_x = (replicate (n_vars 3) 0)[idxDelta 3 := 0.3, idxA 3 := - 1], sol_obj_value = 0\<rparr> = success
   \<and> within_bounds (vars_lowerbound 3) (vars_upperbound 3)
        ((replicate (n_vars 3) 0)[idxDelta 3 := 0.3, idxA 3 := - 1])
   \<and> Solve 3 (\<lambda>opts xi xl xu gl gu fg_eval. \<lparr>sol_status = success,
         sol_x = (replicate (n_vars 3) 0)[idxDelta 3 := 0.3, idxA 3 := - 1], sol_obj_value = 0\<rparr>)
        [0, 0, 0, 10, 1, 0] [0, 0, 0, 0] ! 0 = 0.3
   \<and> Solve 3 (\<lambda>opts xi xl xu gl gu fg_eval. \<lparr>sol_status = success,
         sol_x = (replicate (n_vars 3) 0)[idxDelta 3 := 0.3, idxA 3 := - 1], sol_obj_value = 0\<rparr>)
        [0, 0, 0, 10, 1, 0] [0, 0, 0, 0] ! 1 = - 1
   \<and> vars_lowerbound 3 ! idxX = - (10 ^ 23) \<and> vars_upperbound 3 ! idxX = 10 ^ 23
   \<and> vars_lowerbound 3 ! idxDelta 3 = - 0.436332 \<and> vars_upperbound 3 ! idxDelta 3 = 0.436332
   \<and> vars_lowerbound 3 ! idxA 3 = - 1 \<and> vars_upperbound 3 ! idxA 3 = 1"
proof -
  let ?xs = "(replicate (n_vars 3) 0)[idxDelta 3 := 0.3, idxA 3 := - 1]"
  let ?solve = "\<lambda>(opts::string) (xi::Dvector) (xl::Dvector) (xu::Dvector) (gl::Dvector) (gu::Dvector)
      (fg_eval::ADvector \<Rightarrow> ADvector \<Rightarrow> ADvector).
      \<lparr>sol_status = success, sol_x = ?xs, sol_obj_value = 0\<rparr>"
  have wb: "within_bounds (vars_lowerbound 3) (vars_upperbound 3) ?xs"
    by (intro within_bounds_update within_bounds_zero)
      (simp_all add: vars_lowerbound_nth vars_upperbound_nth idx_defs n_vars_def)
  have val: "?xs ! idxDelta 3 = 0.3" "?xs ! idxA 3 = - 1"
    by (simp_all add: idx_defs n_vars_def)
  show ?thesis
    using bounds_per_block_and_command_range [where n = 3 and solve = ?solve
        and solution = "\<lparr>sol_status = success, sol_x = ?xs, sol_obj_value = 0\<rparr>"
        and state = "[0, 0, 0, 10, 1, 0]" and coeffs = "[0, 0, 0, 0]"] wb val
    by (simp add: Solve_return_val return_val_eq idx_defs n_vars_def)
qed

subsection \<open>C8\<close>

text \<open>
  Claim C8, as amended.  Construction validates nothing and raises nothing, whatever the
  horizon; the horizon of the program is the module-level constant \<open>N = 10\<close>, which
  satisfies \<open>N \<ge> 2\<close>.
\<close>

theorem construction_never_fails: "MPC_new n = Inr () \<and> N = 10 \<and> 2 \<le> N"
  by (simp add: MPC_new_def N_def)

text \<open>
  Claim C8 as stated fails: under a horizon of 1 the constructor returns normally, and
  the steering and acceleration blocks are empty (both start where the vector ends).
\<close>

theorem horizon_one_not_rejected: "MPC_new 1 \<noteq> Inl ConfigurationError \<and> idxA 1 = idxDelta 1 \<and> n_vars 1 = idxDelta 1"
  by (simp add: MPC_new_def idx_defs n_vars_def)

subsection \<open>C9\<close>

text \<open>
  Claim C9.  \<open>Solve\<close> returns the solver's \<open>delta\<close> and \<open>a\<close> at actuator index 0, followed by
  the pairs \<open>(x t, y t)\<close> for \<open>t = 1 .. n-1\<close> in that order; the length is \<open>2 + 2(n-1)\<close>.
  Nothing depends on the status the solver reports.
\<close>

theorem Solve_output_layout:
  assumes "2 \<le> n"
    and "solution = solve options (initial_vars n state) (vars_lowerbound n) (vars_upperbound n)
            (constraints_lowerbound n state) (constraints_upperbound n state) (FG_eval n coeffs)"
    and "length (sol_x solution) = n_vars n"
    and "length state = 6" "length coeffs = 4"
  shows "Solve n solve state coeffs =
           [sol_x solution ! idxDelta n, sol_x solution ! idxA n]
             @ concat (map (\<lambda>t. [sol_x solution ! (idxX + t), sol_x solution ! (idxY n + t)]) [1..<n])
       \<and> length (Solve n solve state coeffs) = 2 + 2 * (n - 1)"
proof -
  have n1: "1 \<le> n" using assms(1) by simp
  have s: "Solve n solve state coeffs = return_val n solution"
    by (simp add: Solve_def Let_def assms(2))
  have "return_val n solution = [sol_x solution ! idxDelta n, sol_x solution ! idxA n]
             @ concat (map (\<lambda>t. [sol_x solution ! (idxX + t), sol_x solution ! (idxY n + t)]) [1..<n])"
    using map_upt_shift [OF n1, of "\<lambda>t. [sol_x solution ! (idxX + t), sol_x solution ! (idxY n + t)]"]
    by (simp add: return_val_eq)
  moreover have "length (return_val n solution) = 2 + 2 * (n - 1)"
    by (simp add: return_val_eq length_concat comp_def sum_list_triv)
  ultimately show ?thesis
    using s by simp
qed

text \<open>
  An instance: the solver reports \<open>local_infeasibility\<close>; the layout is the same.
\<close>

theorem Solve_output_layout_witness:
  "(2::nat) \<le> 3 \<and> length [0, 0, 0, 10, 1, 0 :: real] = 6 \<and> length [0, 0, 0, 0 :: real] = 4
   \<and> length [0, 1, 2,  0, 3, 4,  0, 0, 0,  10, 10, 10,  0, 0, 0,  0, 0, 0,  0.3, 0.1,  - 1, 0 :: real]
       = n_vars 3
   \<and> Solve 3 (\<lambda>opts xi xl xu gl gu fg_eval. \<lparr>sol_status = local_infeasibility,
         sol_x = [0, 1, 2,  0, 3, 4,  0, 0, 0,  10, 10, 10,  0, 0, 0,  0, 0, 0,  0.3, 0.1,  - 1, 0],
         sol_obj_value = 0\<rparr>)
        [0, 0, 0, 10, 1, 0] [0, 0, 0, 0] = [0.3, - 1, 1, 3, 2, 4]
   \<and> length (Solve 3 (\<lambda>opts xi xl xu gl gu fg_eval. \<lparr>sol_status = local_infeasibility,
         sol_x = [0, 1, 2,  0, 3, 4,  0, 0, 0,  10, 10, 10,  0, 0, 0,  0, 0, 0,  0.3, 0.1,  - 1, 0],
         sol_obj_value = 0\<rparr>)
        [0, 0, 0, 10, 1, 0] [0, 0, 0, 0]) = 2 + 2 * (3 - 1)"
  using Solve_output_layout [where n = 3
      and solution = "\<lparr>sol_status = local_infeasibility,
         sol_x = [0, 1, 2,  0, 3, 4,  0, 0, 0,  10, 10, 10,  0, 0, 0,  0, 0, 0,  0.3, 0.1,  - 1, 0],
         sol_obj_value = 0\<rparr>"
      and solve = "\<lambda>opts xi xl xu gl gu fg_eval. \<lparr>sol_status = local_infeasibility,
         sol_x = [0, 1, 2,  0, 3, 4,  0, 0, 0,  10, 10, 10,  0, 0, 0,  0, 0, 0,  0.3, 0.1,  - 1, 0],
         sol_obj_value = 0\<rparr>"
      and state = "[0, 0, 0, 10, 1, 0]" and coeffs = "[0, 0, 0, 0]"]
  by (simp add: idx_defs n_vars_def eval_nat_numeral)

subsection \<open>C10\<close>

text \<open>
  Claim C10.  For \<open>n \<ge> 3\<close>, two variable vectors that agree everywhere except at the last
  actuator pair (steering index \<open>n-2\<close>, acceleration index \<open>n-2\<close>) give the same
  constraint entries \<open>fg[1 .. 6n]\<close>.
\<close>

theorem last_actuator_pair_not_in_constraints:
  assumes "3 \<le> n" "length fg = 1 + n_constraints n"
    and "length vars = n_vars n" "length vars' = n_vars n"
    and "\<forall>j. j \<noteq> idxDelta n + (n - 2) \<and> j \<noteq> idxA n + (n - 2) \<longrightarrow> vars' ! j = vars ! j"
    and "length coeffs = 4"
  shows "\<forall>i. 1 \<le> i \<and> i \<le> 6 * n
           \<longrightarrow> FG_eval n coeffs fg vars' ! i = FG_eval n coeffs fg vars ! i"
proof (intro allI impI)
  fix i
  assume "1 \<le> i \<and> i \<le> 6 * n"
  then have "1 \<le> i" "i \<le> n_constraints n"
    by (simp_all add: n_constraints_def)
  then obtain b t where bt: "t < n" "i = 1 + idx n b + t"
    by (rule constraint_index_cases)
  have same: "vars' ! j = vars ! j" if "j \<noteq> idxDelta n + (n - 2)" "j \<noteq> idxA n + (n - 2)" for j
    using assms(5) that by simp
  show "FG_eval n coeffs fg vars' ! i = FG_eval n coeffs fg vars ! i"
  proof (cases "t = 0")
    case True
    have "idx n b \<noteq> idxDelta n + (n - 2)" "idx n b \<noteq> idxA n + (n - 2)"
      using assms(1) by (cases b; simp add: idx_defs)+
    then have "vars' ! idx n b = vars ! idx n b"
      by (rule same)
    then show ?thesis
      using assms(1,2) by (simp add: bt True FG_eval_initial [unfolded One_nat_def, simplified])
  next
    case False
    then have t1: "1 \<le> t" by simp
    have "written n coeffs vars' t b = written n coeffs vars t b"
      using assms(1) t1 bt(1) same by (rule written_agree)
    then show ?thesis
      unfolding bt(2) using FG_eval_model [OF assms(2) t1 bt(1)] by simp
  qed
qed

text \<open>
  An instance: the last actuator pair changes from \<open>(0.1, 0)\<close> to \<open>(0.4, 0.5)\<close>; the
  constraint entries stay, the cost moves.
\<close>

theorem last_actuator_pair_not_in_constraints_witness:
  "(3::nat) \<le> 3 \<and> length (replicate 19 (0::real)) = 1 + n_constraints 3
   \<and> length [0, 1, 5,  0, 0, 0,  0, 0, 0,  10, 10, 10,  1, 0, 0,  0, 0, 0,  0, 0.1,  1, 0 :: real] = n_vars 3
   \<and> length [1, 0, 0, 0 :: real] = 4
   \<and> tl (FG_eval 3 [1, 0, 0, 0] (replicate 19 0)
           ([0, 1, 5,  0, 0, 0,  0, 0, 0,  10, 10, 10,  1, 0, 0,  0, 0, 0,  0, 0.1,  1, 0]
              [idxDelta 3 + (3 - 2) := 0.4, idxA 3 + (3 - 2) := 0.5]))
       = tl (FG_eval 3 [1, 0, 0, 0] (replicate 19 0)
           [0, 1, 5,  0, 0, 0,  0, 0, 0,  10, 10, 10,  1, 0, 0,  0, 0, 0,  0, 0.1,  1, 0])
   \<and> FG_eval 3 [1, 0, 0, 0] (replicate 19 0)
           ([0, 1, 5,  0, 0, 0,  0, 0, 0,  10, 10, 10,  1, 0, 0,  0, 0, 0,  0, 0.1,  1, 0]
              [idxDelta 3 + (3 - 2) := 0.4, idxA 3 + (3 - 2) := 0.5]) ! 0 = 32304.86
   \<and> FG_eval 3 [1, 0, 0, 0] (replicate 19 0)
           [0, 1, 5,  0, 0, 0,  0, 0, 0,  10, 10, 10,  1, 0, 0,  0, 0, 0,  0, 0.1,  1, 0] ! 0 = 25552.21"
proof -
  let ?v = "[0, 1, 5,  0, 0, 0,  0, 0, 0,  10, 10, 10,  1, 0, 0,  0, 0, 0,  0, 0.1,  1, 0 :: real]"
  let ?v' = "?v[idxDelta 3 + (3 - 2) := 0.4, idxA 3 + (3 - 2) := 0.5]"
  let ?R = "FG_eval 3 [1, 0, 0, 0] (replicate 19 0) ?v"
  let ?R' = "FG_eval 3 [1, 0, 0, 0] (replicate 19 0) ?v'"
  have len: "length ?v = n_vars 3"
    by (simp add: n_vars_def)
  have "\<forall>j. j \<noteq> idxDelta 3 + (3 - 2) \<and> j \<noteq> idxA 3 + (3 - 2) \<longrightarrow> ?v' ! j = ?v ! j"
    by (metis nth_list_update_neq)
  then have same: "\<forall>i. 1 \<le> i \<and> i \<le> 6 * 3 \<longrightarrow> ?R' ! i = ?R ! i"
    using last_actuator_pair_not_in_constraints [where n = 3 and fg = "replicate 19 0"
        and vars = ?v and vars' = ?v' and coeffs = "[1, 0, 0, 0]"] len
    by (simp only: length_list_update length_replicate n_constraints_def) simp
  have "tl ?R' = tl ?R"
  proof (rule nth_equalityI)
    show "length (tl ?R') = length (tl ?R)"
      by (simp add: length_FG_eval)
    fix i
    assume "i < length (tl ?R')"
    then have i: "i < 18"
      by (simp add: length_FG_eval)
    then have "?R' ! Suc i = ?R ! Suc i"
      using same by simp
    then show "tl ?R' ! i = tl ?R ! i"
      using i by (simp add: nth_tl length_FG_eval)
  qed
  moreover have "?R' ! 0 = 32304.86" "?R ! 0 = 25552.21"
    by (simp_all add: FG_eval_cost idx_defs ref_v_def eval_nat_numeral)
  ultimately show ?thesis
    using len by (simp add: n_constraints_def)
qed

end
